theory Spec2Isabelle
  imports Main "HOL-Library.Word"
begin

unbundle bit_operations_syntax

section \<open>The build: what the preprocessor sees\<close>

text \<open>
  \<^verbatim>\<open>Interrupts.h\<close> is written with nested \<^verbatim>\<open>#if\<close>s, so the code that exists depends
  on which macros are defined when the file is compiled. A build records them:
  \<^item> \<open>USE_ARDUINO_INTERRUPTS\<close>: \<open>None\<close> where the macro is not defined (a library
    module includes the header), \<open>Some True\<close> and \<open>Some False\<close> where the Sketch
    defines it as \<^verbatim>\<open>true\<close> or \<^verbatim>\<open>false\<close>;
  \<^item> \<open>F_CPU\<close>: the clock frequency in Hz, which the \<^verbatim>\<open>#if F_CPU == ...\<close> lines compare;
  \<^item> one flag for every target macro that the header tests with \<^verbatim>\<open>defined(...)\<close>.
\<close>

record build =
  USE_ARDUINO_INTERRUPTS :: "bool option"
  F_CPU :: int
  def_arc :: bool
  def_AVR :: bool
  def_AVR_ATmega328P :: bool
  def_AVR_ATmega168 :: bool
  def_AVR_ATmega32U4 :: bool
  def_AVR_ATmega16U4 :: bool
  def_AVR_ATtiny85 :: bool

section \<open>The microcontroller state\<close>

text \<open>
  The special function registers that the header names. The 8-bit registers hold their
  value in the low byte of the 16-bit cell.
\<close>

datatype reg = TCCR1A | TCCR1B | TCCR1C | OCR1A | TIMSK1 | GTCCR | OCR1C | TCCR1 | TIMSK

text \<open>
  What the code does that can be observed from outside: a register write, \<^verbatim>\<open>cli()\<close>,
  \<^verbatim>\<open>sei()\<close>, and the call of \<^verbatim>\<open>onSampleTime()\<close> on an object (given by its address).
\<close>

datatype event = Write reg "16 word" | Cli | Sei | OnSampleTime nat

text \<open>
  \<open>sreg_I\<close> is the global interrupt enable bit. \<open>UsingInterrupts\<close> and \<open>OurThis\<close> are the
  static members of \<^verbatim>\<open>PulseSensorPlayground\<close> that the header uses; \<open>engine\<close> is the
  state of the sampling engine, which only \<^verbatim>\<open>onSampleTime()\<close> changes. \<open>trace\<close> collects
  the events in the order they happen.
\<close>

record 'e mcu =
  regs :: "reg \<Rightarrow> 16 word"
  sreg_I :: bool
  UsingInterrupts :: bool
  OurThis :: nat
  engine :: 'e
  trace :: "event list"

definition write_reg :: "reg \<Rightarrow> 16 word \<Rightarrow> 'e mcu \<Rightarrow> 'e mcu" where
  "write_reg r v s = s\<lparr>regs := (regs s)(r := v), trace := trace s @ [Write r v]\<rparr>"

definition cli :: "'e mcu \<Rightarrow> 'e mcu" where
  "cli s = s\<lparr>sreg_I := False, trace := trace s @ [Cli]\<rparr>"

definition sei :: "'e mcu \<Rightarrow> 'e mcu" where
  "sei s = s\<lparr>sreg_I := True, trace := trace s @ [Sei]\<rparr>"

section \<open>The macros that disable and enable interrupts\<close>

text \<open>
  \<^verbatim>\<open>
  #if defined(__arc__)
  #define DISABLE_PULSE_SENSOR_INTERRUPTS
  #define ENABLE_PULSE_SENSOR_INTERRUPTS
  #else
  #define DISABLE_PULSE_SENSOR_INTERRUPTS cli()
  #define ENABLE_PULSE_SENSOR_INTERRUPTS sei()
  #endif
  \<close>
\<close>

definition DISABLE_PULSE_SENSOR_INTERRUPTS :: "build \<Rightarrow> 'e mcu \<Rightarrow> 'e mcu" where
  "DISABLE_PULSE_SENSOR_INTERRUPTS b s = (if def_arc b then s else cli s)"

definition ENABLE_PULSE_SENSOR_INTERRUPTS :: "build \<Rightarrow> 'e mcu \<Rightarrow> 'e mcu" where
  "ENABLE_PULSE_SENSOR_INTERRUPTS b s = (if def_arc b then s else sei s)"

section \<open>Setting up the sample timer\<close>

text \<open>
  The branch of line 124: \<^verbatim>\<open>__AVR_ATmega328P__\<close>, \<^verbatim>\<open>__AVR_ATmega168__\<close>,
  \<^verbatim>\<open>__AVR_ATmega32U4__\<close> or \<^verbatim>\<open>__AVR_ATmega16U4__\<close> is defined.
\<close>

definition atmega_branch :: "build \<Rightarrow> bool" where
  "atmega_branch b =
     (def_AVR_ATmega328P b \<or> def_AVR_ATmega168 b \<or> def_AVR_ATmega32U4 b \<or> def_AVR_ATmega16U4 b)"

text \<open>
  \<^verbatim>\<open>
  TCCR1A = 0x00;
  TCCR1C = 0x00;
  #if F_CPU == 16000000L
    TCCR1B = 0x0C;
    OCR1A = 0x007C;
  #elif F_CPU == 8000000L
    TCCR1B = 0x0B;
    OCR1A = 0x00F9;
  #endif
  TIMSK1 = 0x02;
  ENABLE_PULSE_SENSOR_INTERRUPTS;
  return true;
  \<close>
  The \<^verbatim>\<open>#if\<close> on \<open>F_CPU\<close> has no \<^verbatim>\<open>#else\<close>: at any other frequency neither
  \<open>TCCR1B\<close> nor \<open>OCR1A\<close> is written.
\<close>

definition setup_atmega :: "build \<Rightarrow> 'e mcu \<Rightarrow> bool \<times> 'e mcu" where
  "setup_atmega b s =
     (let s = write_reg TCCR1A 0x00 s;
          s = write_reg TCCR1C 0x00 s;
          s = (if F_CPU b = 16000000 then write_reg OCR1A 0x007C (write_reg TCCR1B 0x0C s)
               else if F_CPU b = 8000000 then write_reg OCR1A 0x00F9 (write_reg TCCR1B 0x0B s)
               else s);
          s = write_reg TIMSK1 0x02 s;
          s = ENABLE_PULSE_SENSOR_INTERRUPTS b s
      in (True, s))"

text \<open>
  \<^verbatim>\<open>
  GTCCR &= 0x81;
  OCR1C = 0x7C;
  OCR1A = 0x7C;
  #if F_CPU == 16000000L
    TCCR1 = 0x88;
  #elif F_CPU == 8000000L
    TCCR1 = 0x89;
  #endif
  bitSet(TIMSK,6);
  ENABLE_PULSE_SENSOR_INTERRUPTS;
  return true;
  \<close>
  \<^verbatim>\<open>bitSet(x, n)\<close> is Arduino's \<^verbatim>\<open>x |= (1UL << n)\<close>.
\<close>

definition setup_attiny85 :: "build \<Rightarrow> 'e mcu \<Rightarrow> bool \<times> 'e mcu" where
  "setup_attiny85 b s =
     (let s = write_reg GTCCR (regs s GTCCR AND 0x81) s;
          s = write_reg OCR1C 0x7C s;
          s = write_reg OCR1A 0x7C s;
          s = (if F_CPU b = 16000000 then write_reg TCCR1 0x88 s
               else if F_CPU b = 8000000 then write_reg TCCR1 0x89 s
               else s);
          s = write_reg TIMSK (regs s TIMSK OR push_bit 6 1) s;
          s = ENABLE_PULSE_SENSOR_INTERRUPTS b s
      in (True, s))"

text \<open>
  \<^verbatim>\<open>boolean PulseSensorPlaygroundSetupInterrupt()\<close>. The definition is inside
  \<^verbatim>\<open>#if defined(USE_ARDUINO_INTERRUPTS)\<close>: a translation unit that does not define the
  macro only has the declaration (\<open>None\<close>). With \<^verbatim>\<open>#if !USE_ARDUINO_INTERRUPTS\<close> the
  body is \<^verbatim>\<open>return true;\<close>; otherwise the first target branch that applies, and
  \<^verbatim>\<open>return false;\<close> when none does.
\<close>

definition PulseSensorPlaygroundSetupInterrupt :: "build \<Rightarrow> 'e mcu \<Rightarrow> (bool \<times> 'e mcu) option" where
  "PulseSensorPlaygroundSetupInterrupt b s =
     (case USE_ARDUINO_INTERRUPTS b of
        None \<Rightarrow> None
      | Some use \<Rightarrow>
          Some (if \<not> use then (True, s)
                else if atmega_branch b then setup_atmega b s
                else if def_AVR_ATtiny85 b then setup_attiny85 b s
                else (False, s)))"

text \<open>
  The result of a call, and the events that the call adds to the trace.
\<close>

definition setup_result :: "build \<Rightarrow> 'e mcu \<Rightarrow> bool option" where
  "setup_result b s = map_option fst (PulseSensorPlaygroundSetupInterrupt b s)"

definition setup_events :: "build \<Rightarrow> 'e mcu \<Rightarrow> event list" where
  "setup_events b s =
     (case PulseSensorPlaygroundSetupInterrupt b s of
        None \<Rightarrow> []
      | Some (r, s') \<Rightarrow> drop (length (trace s)) (trace s'))"

text \<open>
  The (target, frequency) pairs for which the function has a prescaler and a compare
  value: one of the two target branches, at 16 MHz or at 8 MHz.
\<close>

definition in_capability_table :: "build \<Rightarrow> bool" where
  "in_capability_table b =
     ((atmega_branch b \<or> def_AVR_ATtiny85 b) \<and> (F_CPU b = 16000000 \<or> F_CPU b = 8000000))"

text \<open>
  The discipline of a critical section, on the events of one call: every register write
  happens after a \<open>Cli\<close> of this call and before the next \<open>Sei\<close>. The flag says
  whether the call is inside its critical section.
\<close>

fun guarded :: "bool \<Rightarrow> event list \<Rightarrow> bool" where
  "guarded inside [] = True"
| "guarded inside (Cli # es) = guarded True es"
| "guarded inside (Sei # es) = guarded False es"
| "guarded inside (Write r v # es) = (inside \<and> guarded inside es)"
| "guarded inside (OnSampleTime p # es) = guarded inside es"

definition writes_inside_critical_section :: "event list \<Rightarrow> bool" where
  "writes_inside_critical_section es = guarded False es"

section \<open>The interrupt service routine\<close>

text \<open>
  \<^verbatim>\<open>PulseSensorPlayground::OurThis->onSampleTime();\<close> The method belongs to the sampling
  engine: it is a parameter, a function of the object's address on the engine's state.
\<close>

definition call_onSampleTime :: "(nat \<Rightarrow> 'e \<Rightarrow> 'e) \<Rightarrow> nat \<Rightarrow> 'e mcu \<Rightarrow> 'e mcu" where
  "call_onSampleTime onSampleTime p s =
     s\<lparr>engine := onSampleTime p (engine s), trace := trace s @ [OnSampleTime p]\<rparr>"

text \<open>
  \<^verbatim>\<open>
  ISR(TIMER1_COMPA_vect)
  {
    DISABLE_PULSE_SENSOR_INTERRUPTS;
    PulseSensorPlayground::OurThis->onSampleTime();
    ENABLE_PULSE_SENSOR_INTERRUPTS;
  }
  \<close>
\<close>

definition ISR_TIMER1_COMPA :: "(nat \<Rightarrow> 'e \<Rightarrow> 'e) \<Rightarrow> build \<Rightarrow> 'e mcu \<Rightarrow> 'e mcu" where
  "ISR_TIMER1_COMPA onSampleTime b s =
     (let s = DISABLE_PULSE_SENSOR_INTERRUPTS b s;
          s = call_onSampleTime onSampleTime (OurThis s) s;
          s = ENABLE_PULSE_SENSOR_INTERRUPTS b s
      in s)"

text \<open>
  The interrupt service routines that the translation unit defines. The one \<^verbatim>\<open>ISR(...)\<close>
  of the header is inside \<^verbatim>\<open>#if defined(USE_ARDUINO_INTERRUPTS)\<close>,
  \<^verbatim>\<open>#if USE_ARDUINO_INTERRUPTS\<close> and \<^verbatim>\<open>#if defined(__AVR__)\<close>.
\<close>

datatype vector = TIMER1_COMPA_vect

definition isr_table :: "(nat \<Rightarrow> 'e \<Rightarrow> 'e) \<Rightarrow> build \<Rightarrow> (vector \<times> ('e mcu \<Rightarrow> 'e mcu)) list" where
  "isr_table onSampleTime b =
     (case USE_ARDUINO_INTERRUPTS b of
        None \<Rightarrow> []
      | Some use \<Rightarrow>
          if use then
            (if def_AVR b then [(TIMER1_COMPA_vect, ISR_TIMER1_COMPA onSampleTime b)] else [])
          else [])"

definition isr_vectors :: "build \<Rightarrow> vector list" where
  "isr_vectors b = map fst (isr_table (\<lambda>p e. e :: unit) b)"

text \<open>
  A compare match of Timer1 runs the routine bound to the vector. Where the translation
  unit binds none, no code of the header runs.
\<close>

definition timer1_compare_match :: "(nat \<Rightarrow> 'e \<Rightarrow> 'e) \<Rightarrow> build \<Rightarrow> 'e mcu \<Rightarrow> 'e mcu" where
  "timer1_compare_match onSampleTime b s =
     (case map_of (isr_table onSampleTime b) TIMER1_COMPA_vect of
        None \<Rightarrow> s
      | Some isr \<Rightarrow> isr s)"

section \<open>The flag \<open>UsingInterrupts\<close> and the life of the subsystem\<close>

text \<open>
  \<^verbatim>\<open>boolean PulseSensorPlayground::UsingInterrupts = USE_ARDUINO_INTERRUPTS;\<close>
  The static initialiser, inside \<^verbatim>\<open>#if defined(USE_ARDUINO_INTERRUPTS)\<close>: a translation
  unit without the macro does not define the variable (\<open>None\<close>).
\<close>

definition static_init :: "build \<Rightarrow> 'e mcu \<Rightarrow> 'e mcu option" where
  "static_init b s =
     (case USE_ARDUINO_INTERRUPTS b of
        None \<Rightarrow> None
      | Some use \<Rightarrow> Some (s\<lparr>UsingInterrupts := use\<rparr>))"

text \<open>
  After the initialiser, the code of the header runs when the library calls
  \<^verbatim>\<open>PulseSensorPlaygroundSetupInterrupt()\<close> and when Timer1 has a compare match.
\<close>

datatype action = CallSetup | CompareMatch

definition step :: "(nat \<Rightarrow> 'e \<Rightarrow> 'e) \<Rightarrow> build \<Rightarrow> action \<Rightarrow> 'e mcu \<Rightarrow> 'e mcu" where
  "step onSampleTime b a s =
     (case a of
        CallSetup \<Rightarrow>
          (case PulseSensorPlaygroundSetupInterrupt b s of None \<Rightarrow> s | Some (r, s') \<Rightarrow> s')
      | CompareMatch \<Rightarrow> timer1_compare_match onSampleTime b s)"

fun run :: "(nat \<Rightarrow> 'e \<Rightarrow> 'e) \<Rightarrow> build \<Rightarrow> action list \<Rightarrow> 'e mcu \<Rightarrow> 'e mcu" where
  "run onSampleTime b [] s = s"
| "run onSampleTime b (a # as) s = run onSampleTime b as (step onSampleTime b a s)"

section \<open>Timer/Counter1 of the ATmega328P family\<close>

text \<open>
  What the registers mean is not in the header: it is the data sheet's description of the
  16-bit Timer/Counter1, modelled here as far as the header's values need it.
  \<^item> Bits 2..0 of \<open>TCCR1B\<close> (CS12..CS10) select the clock: 1, 2, 3, 4, 5 divide the
    system clock by 1, 8, 64, 256, 1024; 0 stops the timer; 6 and 7 take an external clock.
  \<^item> The waveform generation mode is WGM13..WGM10, bits 4..3 of \<open>TCCR1B\<close> and bits 1..0
    of \<open>TCCR1A\<close>; mode 4 is "clear timer on compare match" with \<open>OCR1A\<close> as the top.
  \<^item> Bit 1 of \<open>TIMSK1\<close> (OCIE1A) enables the compare match A interrupt.
\<close>

definition timer1_prescaler :: "16 word \<Rightarrow> nat option" where
  "timer1_prescaler tccr1b =
     (let cs = unat (tccr1b AND 0x07) in
      if cs = 1 then Some 1 else if cs = 2 then Some 8 else if cs = 3 then Some 64
      else if cs = 4 then Some 256 else if cs = 5 then Some 1024 else None)"

definition timer1_ctc :: "(reg \<Rightarrow> 16 word) \<Rightarrow> bool" where
  "timer1_ctc rg = (rg TCCR1A AND 0x03 = 0 \<and> rg TCCR1B AND 0x18 = 0x08)"

definition timer1_ocie1a :: "(reg \<Rightarrow> 16 word) \<Rightarrow> bool" where
  "timer1_ocie1a rg = (rg TIMSK1 AND 0x02 = 0x02)"

text \<open>
  The timer, one system clock cycle at a time. \<open>p\<close> counts the cycles of the prescaler,
  \<open>t\<close> is the counter \<open>TCNT1\<close>. Every \<open>presc\<close> cycles the counter counts one up; from
  the value \<open>ocr\<close> it goes back to 0, and that is a compare match. The result is the
  number of compare matches in \<open>n\<close> cycles.
\<close>

fun timer1_count :: "nat \<Rightarrow> nat \<Rightarrow> nat \<Rightarrow> nat \<times> nat \<Rightarrow> nat" where
  "timer1_count presc ocr 0 (p, t) = 0"
| "timer1_count presc ocr (Suc n) (p, t) =
     (if Suc p < presc then timer1_count presc ocr n (Suc p, t)
      else if t < ocr then timer1_count presc ocr n (0, Suc t)
      else Suc (timer1_count presc ocr n (0, 0)))"

text \<open>The period between two compare matches, in system clock cycles.\<close>

definition timer1_period :: "(reg \<Rightarrow> 16 word) \<Rightarrow> nat option" where
  "timer1_period rg =
     (if timer1_ctc rg then
        (case timer1_prescaler (rg TCCR1B) of
           None \<Rightarrow> None
         | Some presc \<Rightarrow> Some (presc * (unat (rg OCR1A) + 1)))
      else None)"

text \<open>
  The number of compare match interrupts that the timer raises in the given number of
  cycles, started from 0 with the registers as they are; \<open>None\<close> where the registers do
  not put the timer in that mode.
\<close>

definition timer1_compare_matches :: "(reg \<Rightarrow> 16 word) \<Rightarrow> nat \<Rightarrow> nat option" where
  "timer1_compare_matches rg cycles =
     (if timer1_ctc rg \<and> timer1_ocie1a rg then
        (case timer1_prescaler (rg TCCR1B) of
           None \<Rightarrow> None
         | Some presc \<Rightarrow> Some (timer1_count presc (unat (rg OCR1A)) cycles (0, 0)))
      else None)"

text \<open>
  The processor takes an interrupt only while the global interrupt enable bit is set.
  A simulation of the given number of cycles delivers every compare match of the timer.
\<close>

definition deliver :: "(nat \<Rightarrow> 'e \<Rightarrow> 'e) \<Rightarrow> build \<Rightarrow> 'e mcu \<Rightarrow> 'e mcu" where
  "deliver onSampleTime b s = (if sreg_I s then timer1_compare_match onSampleTime b s else s)"

definition timer1_simulate :: "(nat \<Rightarrow> 'e \<Rightarrow> 'e) \<Rightarrow> build \<Rightarrow> nat \<Rightarrow> 'e mcu \<Rightarrow> 'e mcu option" where
  "timer1_simulate onSampleTime b cycles s =
     (case timer1_compare_matches (regs s) cycles of
        None \<Rightarrow> None
      | Some k \<Rightarrow> Some ((deliver onSampleTime b ^^ k) s))"

text \<open>How often \<^verbatim>\<open>onSampleTime()\<close> was called on the object at address \<open>p\<close>.\<close>

definition callbacks :: "nat \<Rightarrow> 'e mcu \<Rightarrow> nat" where
  "callbacks p s = count_list (trace s) (OnSampleTime p)"

section \<open>Example builds and start states\<close>

definition uno_16MHz :: build where
  "uno_16MHz = \<lparr>USE_ARDUINO_INTERRUPTS = Some True, F_CPU = 16000000, def_arc = False,
     def_AVR = True, def_AVR_ATmega328P = True, def_AVR_ATmega168 = False,
     def_AVR_ATmega32U4 = False, def_AVR_ATmega16U4 = False, def_AVR_ATtiny85 = False\<rparr>"

definition pro_mini_8MHz :: build where
  "pro_mini_8MHz = uno_16MHz\<lparr>F_CPU := 8000000\<rparr>"

definition atmega328p_20MHz :: build where
  "atmega328p_20MHz = uno_16MHz\<lparr>F_CPU := 20000000\<rparr>"

definition attiny85_8MHz :: build where
  "attiny85_8MHz = \<lparr>USE_ARDUINO_INTERRUPTS = Some True, F_CPU = 8000000, def_arc = False,
     def_AVR = True, def_AVR_ATmega328P = False, def_AVR_ATmega168 = False,
     def_AVR_ATmega32U4 = False, def_AVR_ATmega16U4 = False, def_AVR_ATtiny85 = True\<rparr>"

definition uno_polled :: build where
  "uno_polled = uno_16MHz\<lparr>USE_ARDUINO_INTERRUPTS := Some False\<rparr>"

definition arduino_101 :: build where
  "arduino_101 = \<lparr>USE_ARDUINO_INTERRUPTS = Some True, F_CPU = 32000000, def_arc = True,
     def_AVR = False, def_AVR_ATmega328P = False, def_AVR_ATmega168 = False,
     def_AVR_ATmega32U4 = False, def_AVR_ATmega16U4 = False, def_AVR_ATtiny85 = False\<rparr>"

text \<open>
  After reset: registers cleared, and the Arduino core has enabled interrupts. In
  \<open>start_masked\<close> the caller has disabled them before the call; in \<open>start_cold\<close> the
  memory cell of \<open>UsingInterrupts\<close> holds false before the static initialisers run.
\<close>

definition start :: "nat mcu" where
  "start = \<lparr>regs = (\<lambda>r. 0), sreg_I = True, UsingInterrupts = True, OurThis = 7,
     engine = 0, trace = []\<rparr>"

definition start_masked :: "nat mcu" where
  "start_masked = start\<lparr>sreg_I := False\<rparr>"

definition start_cold :: "nat mcu" where
  "start_cold = start\<lparr>UsingInterrupts := False\<rparr>"

text \<open>The state after the set-up of \<open>uno_16MHz\<close> from \<open>start_masked\<close>.\<close>

definition uno_armed_from_masked :: "nat mcu" where
  "uno_armed_from_masked = \<lparr>regs = (\<lambda>r. 0)(TCCR1B := 0x0C, OCR1A := 0x007C, TIMSK1 := 0x02),
     sreg_I = True, UsingInterrupts = True, OurThis = 7, engine = 0,
     trace = [Write TCCR1A 0x00, Write TCCR1C 0x00, Write TCCR1B 0x0C, Write OCR1A 0x007C,
       Write TIMSK1 0x02, Sei]\<rparr>"

text \<open>A sampling engine that counts its samples.\<close>

definition count_sample :: "nat \<Rightarrow> nat \<Rightarrow> nat" where
  "count_sample p e = Suc e"

section \<open>Facts about the model\<close>

lemmas setup_defs =
  PulseSensorPlaygroundSetupInterrupt_def setup_atmega_def setup_attiny85_def
  write_reg_def sei_def cli_def
  ENABLE_PULSE_SENSOR_INTERRUPTS_def DISABLE_PULSE_SENSOR_INTERRUPTS_def
  setup_result_def setup_events_def

lemmas isr_defs =
  timer1_compare_match_def isr_table_def ISR_TIMER1_COMPA_def call_onSampleTime_def
  sei_def cli_def ENABLE_PULSE_SENSOR_INTERRUPTS_def DISABLE_PULSE_SENSOR_INTERRUPTS_def

lemmas build_defs =
  uno_16MHz_def pro_mini_8MHz_def uno_polled_def atmega_branch_def in_capability_table_def

text \<open>
  With interrupts wanted and neither target branch applying, the function returns false
  and leaves the state as it was.
\<close>

lemma setup_unknown_target_false:
  "USE_ARDUINO_INTERRUPTS b = Some True \<Longrightarrow> \<not> atmega_branch b \<Longrightarrow> \<not> def_AVR_ATtiny85 b \<Longrightarrow>
     PulseSensorPlaygroundSetupInterrupt b s = Some (False, s)"
  by (simp add: PulseSensorPlaygroundSetupInterrupt_def)

text \<open>
  The closed form of the cycle-by-cycle count: the timer raises a compare match every
  \<open>presc * (ocr + 1)\<close> cycles.
\<close>

lemma timer1_count_closed:
  "0 < presc \<Longrightarrow> p < presc \<Longrightarrow> t \<le> ocr \<Longrightarrow>
     timer1_count presc ocr n (p, t) = (n + p + t * presc) div (presc * (ocr + 1))"
proof (induction n arbitrary: p t)
  case 0
  have "p + t * presc < presc + t * presc"
    using 0 by simp
  also have "\<dots> = presc * (t + 1)"
    by (simp add: algebra_simps)
  also have "\<dots> \<le> presc * (ocr + 1)"
    using 0 by simp
  finally show ?case by simp
next
  case (Suc n)
  show ?case
  proof (cases "Suc p < presc")
    case True
    then show ?thesis using Suc by simp
  next
    case False
    then have p: "Suc p = presc"
      using Suc.prems by simp
    show ?thesis
    proof (cases "t < ocr")
      case True
      have "timer1_count presc ocr (Suc n) (p, t) = timer1_count presc ocr n (0, Suc t)"
        using False True by simp
      also have "\<dots> = (n + 0 + Suc t * presc) div (presc * (ocr + 1))"
        using Suc.IH [of 0 "Suc t"] Suc.prems True by simp
      also have "n + 0 + Suc t * presc = Suc n + p + t * presc"
        using p by simp
      finally show ?thesis .
    next
      case top: False
      then have t: "t = ocr"
        using Suc.prems by simp
      have "timer1_count presc ocr (Suc n) (p, t) = Suc (timer1_count presc ocr n (0, 0))"
        using False top by simp
      also have "\<dots> = Suc (n div (presc * (ocr + 1)))"
        using Suc.IH [of 0 0] Suc.prems by simp
      also have "\<dots> = (n + presc * (ocr + 1)) div (presc * (ocr + 1))"
        using Suc.prems(1) div_add_self2 [of "presc * (ocr + 1)" n] by simp
      also have "n + presc * (ocr + 1) = Suc n + p + t * presc"
        using p t by (simp add: algebra_simps)
      finally show ?thesis .
    qed
  qed
qed

text \<open>
  In an interrupt-driven build for an AVR target, with interrupts enabled, \<open>k\<close> compare
  matches call \<^verbatim>\<open>onSampleTime()\<close> on the bound object \<open>k\<close> times, and leave the
  registers, the binding and the interrupt enable bit as they were.
\<close>

lemma deliver_funpow:
  assumes "USE_ARDUINO_INTERRUPTS b = Some True" "def_AVR b" "\<not> def_arc b" "sreg_I s"
  shows "sreg_I ((deliver cb b ^^ k) s) \<and>
         OurThis ((deliver cb b ^^ k) s) = OurThis s \<and>
         regs ((deliver cb b ^^ k) s) = regs s \<and>
         callbacks (OurThis s) ((deliver cb b ^^ k) s) = callbacks (OurThis s) s + k"
proof (induction k)
  case 0
  show ?case using assms(4) by simp
next
  case (Suc k)
  then show ?case
    using assms(1-3) by (simp add: deliver_def callbacks_def isr_defs Let_def)
qed

text \<open>No code of the header assigns \<open>UsingInterrupts\<close>.\<close>

lemma step_UsingInterrupts: "UsingInterrupts (step cb b a s) = UsingInterrupts s"
  by (cases a) (auto simp add: step_def isr_defs setup_defs Let_def split: option.splits)

lemma run_UsingInterrupts: "UsingInterrupts (run cb b as s) = UsingInterrupts s"
  by (induction as arbitrary: s) (simp_all add: step_UsingInterrupts)

section \<open>Polling-only builds\<close>

text \<open>
  C5. With \<^verbatim>\<open>USE_ARDUINO_INTERRUPTS\<close> false, on every target and at every clock
  frequency, \<^verbatim>\<open>PulseSensorPlaygroundSetupInterrupt()\<close> returns true and leaves the whole
  state as it was: no register is written and no event is added to the trace.
\<close>

theorem setup_polled_true_no_writes:
  "USE_ARDUINO_INTERRUPTS b = Some False \<Longrightarrow>
     PulseSensorPlaygroundSetupInterrupt b s = Some (True, s)"
  by (simp add: PulseSensorPlaygroundSetupInterrupt_def)

theorem setup_polled_true_no_writes_witness:
  "USE_ARDUINO_INTERRUPTS uno_polled = Some False \<and>
   PulseSensorPlaygroundSetupInterrupt uno_polled start = Some (True, start)"
  using setup_polled_true_no_writes [of uno_polled start]
  by (simp add: uno_polled_def)

section \<open>The critical-section macros on Arduino 101\<close>

text \<open>
  C9. Where \<^verbatim>\<open>__arc__\<close> is defined, \<^verbatim>\<open>DISABLE_PULSE_SENSOR_INTERRUPTS\<close> and
  \<^verbatim>\<open>ENABLE_PULSE_SENSOR_INTERRUPTS\<close> expand to nothing: each leaves the state as it
  was, so the interrupt enable bit keeps its value and nothing is added to the trace.
\<close>

theorem arc_macros_expand_to_nothing:
  "def_arc b \<Longrightarrow>
     DISABLE_PULSE_SENSOR_INTERRUPTS b s = s \<and> ENABLE_PULSE_SENSOR_INTERRUPTS b s = s"
  by (simp add: DISABLE_PULSE_SENSOR_INTERRUPTS_def ENABLE_PULSE_SENSOR_INTERRUPTS_def)

theorem arc_macros_expand_to_nothing_witness:
  "def_arc arduino_101 \<and>
   DISABLE_PULSE_SENSOR_INTERRUPTS arduino_101 start = start \<and>
   ENABLE_PULSE_SENSOR_INTERRUPTS arduino_101 start = start"
  using arc_macros_expand_to_nothing [of arduino_101 start]
  by (simp add: arduino_101_def)

section \<open>Interrupt-driven builds: what the set-up does\<close>

text \<open>
  C1. The claim: for every (target, frequency) pair outside the table the function returns
  false and writes no register. The code at an ATmega328P with a 20 MHz clock, a pair
  outside the table: the \<^verbatim>\<open>#if\<close> on \<open>F_CPU\<close> has no \<^verbatim>\<open>#else\<close>, so the function writes
  \<open>TCCR1A\<close>, \<open>TCCR1C\<close> and \<open>TIMSK1\<close>, executes \<^verbatim>\<open>sei()\<close> and returns true.
\<close>

theorem setup_unlisted_frequency_writes:
  "\<not> in_capability_table atmega328p_20MHz \<and>
   setup_result atmega328p_20MHz start = Some True \<and>
   setup_events atmega328p_20MHz start =
     [Write TCCR1A 0x00, Write TCCR1C 0x00, Write TIMSK1 0x02, Sei]"
  by (simp add: atmega328p_20MHz_def build_defs start_def setup_defs Let_def)

text \<open>
  C2, as the claim states it: the register writes of a supported pair are inside a
  critical section of the call. On the ATmega328P at 16 MHz the call returns true, but its
  first event is a register write and it never executes \<^verbatim>\<open>cli()\<close>.
\<close>

theorem setup_no_critical_section_counterexample:
  "setup_result uno_16MHz start = Some True \<and>
   setup_events uno_16MHz start =
     [Write TCCR1A 0x00, Write TCCR1C 0x00, Write TCCR1B 0x0C, Write OCR1A 0x007C,
      Write TIMSK1 0x02, Sei] \<and>
   \<not> writes_inside_critical_section (setup_events uno_16MHz start)"
  by (simp add: build_defs start_def setup_defs Let_def writes_inside_critical_section_def)

text \<open>
  C2, amended. On a supported pair (and a target that has \<^verbatim>\<open>cli()\<close> and \<^verbatim>\<open>sei()\<close>)
  the call returns true and does not enter a critical section. Its events are exactly
  these, in this order: on the ATmega branch the writes \<open>TCCR1A = 0\<close>, \<open>TCCR1C = 0\<close>,
  \<open>TCCR1B = 0x0C\<close> and \<open>OCR1A = 0x7C\<close> at 16 MHz (\<open>0x0B\<close> and \<open>0xF9\<close> at 8 MHz), then
  \<open>TIMSK1 = 0x02\<close>, which arms the timer; on the ATtiny85 branch the writes
  \<open>GTCCR &= 0x81\<close>, \<open>OCR1C = 0x7C\<close>, \<open>OCR1A = 0x7C\<close>, \<open>TCCR1 = 0x88\<close> at 16 MHz (\<open>0x89\<close> at
  8 MHz), then bit 6 of \<open>TIMSK\<close> set, which arms the timer; and last \<^verbatim>\<open>sei()\<close>. There is no
  \<^verbatim>\<open>cli()\<close> among them, so the writes happen with interrupt delivery as the caller left
  it. The state afterwards is the state before with these registers, the interrupt
  enable bit set and these events added.
\<close>

theorem setup_supported_writes_then_sei:
  assumes "USE_ARDUINO_INTERRUPTS b = Some True" and "in_capability_table b" and "\<not> def_arc b"
  shows "setup_result b s = Some True \<and>
         setup_events b s =
           (if atmega_branch b then
              [Write TCCR1A 0x00, Write TCCR1C 0x00,
               Write TCCR1B (if F_CPU b = 16000000 then 0x0C else 0x0B),
               Write OCR1A (if F_CPU b = 16000000 then 0x007C else 0x00F9),
               Write TIMSK1 0x02, Sei]
            else
              [Write GTCCR (regs s GTCCR AND 0x81), Write OCR1C 0x7C, Write OCR1A 0x7C,
               Write TCCR1 (if F_CPU b = 16000000 then 0x88 else 0x89),
               Write TIMSK (regs s TIMSK OR 0x40), Sei]) \<and>
         Cli \<notin> set (setup_events b s) \<and>
         \<not> writes_inside_critical_section (setup_events b s) \<and>
         PulseSensorPlaygroundSetupInterrupt b s =
           Some (True, s\<lparr>regs :=
                   (if atmega_branch b then
                      (regs s)(TCCR1A := 0x00, TCCR1C := 0x00,
                        TCCR1B := (if F_CPU b = 16000000 then 0x0C else 0x0B),
                        OCR1A := (if F_CPU b = 16000000 then 0x007C else 0x00F9),
                        TIMSK1 := 0x02)
                    else
                      (regs s)(GTCCR := regs s GTCCR AND 0x81, OCR1C := 0x7C, OCR1A := 0x7C,
                        TCCR1 := (if F_CPU b = 16000000 then 0x88 else 0x89),
                        TIMSK := regs s TIMSK OR 0x40)),
                 sreg_I := True,
                 trace := trace s @ setup_events b s\<rparr>)"
proof (cases "atmega_branch b")
  case True
  then show ?thesis
    using assms
    by (auto simp add: setup_defs Let_def in_capability_table_def writes_inside_critical_section_def)
next
  case False
  then have "def_AVR_ATtiny85 b"
    using assms(2) by (simp add: in_capability_table_def)
  then show ?thesis
    using assms False
    by (auto simp add: setup_defs Let_def in_capability_table_def writes_inside_critical_section_def)
qed

theorem setup_supported_writes_then_sei_witness:
  "USE_ARDUINO_INTERRUPTS pro_mini_8MHz = Some True \<and> in_capability_table pro_mini_8MHz \<and>
   \<not> def_arc pro_mini_8MHz \<and>
   setup_result pro_mini_8MHz start = Some True \<and>
   setup_events pro_mini_8MHz start =
     [Write TCCR1A 0x00, Write TCCR1C 0x00, Write TCCR1B 0x0B, Write OCR1A 0x00F9,
      Write TIMSK1 0x02, Sei] \<and>
   USE_ARDUINO_INTERRUPTS attiny85_8MHz = Some True \<and> in_capability_table attiny85_8MHz \<and>
   \<not> def_arc attiny85_8MHz \<and>
   setup_result attiny85_8MHz start = Some True \<and>
   setup_events attiny85_8MHz start =
     [Write GTCCR 0x00, Write OCR1C 0x7C, Write OCR1A 0x7C, Write TCCR1 0x89,
      Write TIMSK 0x40, Sei]"
proof -
  have a: "USE_ARDUINO_INTERRUPTS pro_mini_8MHz = Some True" "in_capability_table pro_mini_8MHz"
      "\<not> def_arc pro_mini_8MHz" "atmega_branch pro_mini_8MHz" "F_CPU pro_mini_8MHz = 8000000"
    by (simp_all add: build_defs)
  have t: "USE_ARDUINO_INTERRUPTS attiny85_8MHz = Some True" "in_capability_table attiny85_8MHz"
      "\<not> def_arc attiny85_8MHz" "\<not> atmega_branch attiny85_8MHz" "F_CPU attiny85_8MHz = 8000000"
    by (simp_all add: attiny85_8MHz_def build_defs)
  have r: "regs start GTCCR = 0" "regs start TIMSK = 0"
    by (simp_all add: start_def)
  show ?thesis
    using setup_supported_writes_then_sei [OF a(1-3), of start]
      setup_supported_writes_then_sei [OF t(1-3), of start] a t r
    by simp
qed

text \<open>
  C10. In an interrupt-driven build (on a target that has \<^verbatim>\<open>sei()\<close>), a call that returns
  true has executed \<^verbatim>\<open>sei()\<close> as its last action, and interrupts are enabled afterwards,
  whatever the interrupt enable bit was before the call.
\<close>

theorem setup_true_ends_with_sei:
  assumes "USE_ARDUINO_INTERRUPTS b = Some True" and "\<not> def_arc b"
    and "PulseSensorPlaygroundSetupInterrupt b s = Some (True, s')"
  shows "sreg_I s' \<and> setup_events b s \<noteq> [] \<and> last (setup_events b s) = Sei"
  using assms by (auto simp add: setup_defs Let_def split: if_splits)

theorem setup_true_ends_with_sei_witness:
  "USE_ARDUINO_INTERRUPTS uno_16MHz = Some True \<and> \<not> def_arc uno_16MHz \<and>
   \<not> sreg_I start_masked \<and>
   PulseSensorPlaygroundSetupInterrupt uno_16MHz start_masked = Some (True, uno_armed_from_masked) \<and>
   sreg_I uno_armed_from_masked \<and> last (setup_events uno_16MHz start_masked) = Sei"
proof -
  have call: "PulseSensorPlaygroundSetupInterrupt uno_16MHz start_masked = Some (True, uno_armed_from_masked)"
    by (simp add: build_defs start_def start_masked_def uno_armed_from_masked_def setup_defs Let_def fun_eq_iff)
  have "USE_ARDUINO_INTERRUPTS uno_16MHz = Some True" and "\<not> def_arc uno_16MHz"
    by (simp_all add: build_defs)
  from setup_true_ends_with_sei [OF this call] call show ?thesis
    by (simp add: build_defs start_def start_masked_def)
qed

section \<open>The sample period on the ATmega328P family\<close>

text \<open>
  C3. On the ATmega328P family at 16 MHz the set-up leaves \<open>TCCR1B = 0x0C\<close> (CTC mode,
  prescaler 256) and \<open>OCR1A = 0x007C\<close> (count to 124). The period between compare matches
  is 32000 clock cycles, which at 16 MHz is exactly 2 ms (1000 periods are 2 seconds of
  cycles); one second of cycles has exactly 500 compare matches, and delivering them calls
  \<^verbatim>\<open>onSampleTime()\<close> on the bound object exactly 500 times.
\<close>

theorem atmega_16MHz_period_2ms:
  assumes "USE_ARDUINO_INTERRUPTS b = Some True" and "atmega_branch b" and "F_CPU b = 16000000"
    and "def_AVR b" and "\<not> def_arc b"
  shows "\<exists>s' s''. PulseSensorPlaygroundSetupInterrupt b s = Some (True, s') \<and>
           regs s' TCCR1B = 0x0C \<and> regs s' OCR1A = 0x007C \<and>
           timer1_period (regs s') = Some 32000 \<and> 1000 * 32000 = 2 * F_CPU b \<and>
           timer1_compare_matches (regs s') (nat (F_CPU b)) = Some 500 \<and>
           timer1_simulate cb b (nat (F_CPU b)) s' = Some s'' \<and>
           callbacks (OurThis s) s'' = callbacks (OurThis s) s + 500"
proof -
  obtain s' where call: "PulseSensorPlaygroundSetupInterrupt b s = Some (True, s')"
    and rg: "regs s' = (regs s)(TCCR1A := 0x00, TCCR1C := 0x00, TCCR1B := 0x0C, OCR1A := 0x007C, TIMSK1 := 0x02)"
    and i: "sreg_I s'" and obj: "OurThis s' = OurThis s"
    and cb0: "callbacks (OurThis s) s' = callbacks (OurThis s) s"
    using assms by (simp add: setup_defs callbacks_def Let_def)
  have ctc: "timer1_ctc (regs s')" and ocie: "timer1_ocie1a (regs s')"
    and presc: "timer1_prescaler (regs s' TCCR1B) = Some 256"
    by (simp_all add: rg timer1_ctc_def timer1_ocie1a_def timer1_prescaler_def)
  have count: "timer1_count 256 124 16000000 (0, 0) = 500"
    by (simp add: timer1_count_closed)
  have period: "timer1_period (regs s') = Some 32000"
    using ctc presc by (simp add: timer1_period_def rg)
  have matches: "timer1_compare_matches (regs s') (nat (F_CPU b)) = Some 500"
    using ctc ocie presc count assms(3) by (simp add: timer1_compare_matches_def rg)
  have sim: "timer1_simulate cb b (nat (F_CPU b)) s' = Some ((deliver cb b ^^ 500) s')"
    using matches by (simp add: timer1_simulate_def)
  have "callbacks (OurThis s') ((deliver cb b ^^ 500) s') = callbacks (OurThis s') s' + 500"
    using deliver_funpow [where cb = cb and k = 500, OF assms(1) assms(4) assms(5) i] by simp
  then have calls: "callbacks (OurThis s) ((deliver cb b ^^ 500) s') = callbacks (OurThis s) s + 500"
    using obj cb0 by simp
  show ?thesis
    using call rg period matches sim calls assms(3) by simp
qed

theorem atmega_16MHz_period_2ms_witness:
  "USE_ARDUINO_INTERRUPTS uno_16MHz = Some True \<and> atmega_branch uno_16MHz \<and>
   F_CPU uno_16MHz = 16000000 \<and> def_AVR uno_16MHz \<and> \<not> def_arc uno_16MHz \<and>
   (\<exists>s' s''. PulseSensorPlaygroundSetupInterrupt uno_16MHz start = Some (True, s') \<and>
      regs s' TCCR1B = 0x0C \<and> regs s' OCR1A = 0x007C \<and>
      timer1_compare_matches (regs s') 16000000 = Some 500 \<and>
      timer1_simulate count_sample uno_16MHz 16000000 s' = Some s'' \<and>
      callbacks 7 s'' = 500)"
proof -
  have "callbacks 7 start = 0" and "OurThis start = 7"
    by (simp_all add: callbacks_def start_def)
  then show ?thesis
    using atmega_16MHz_period_2ms [of uno_16MHz start count_sample]
    by (auto simp add: build_defs)
qed

text \<open>
  C4. On the ATmega328P family at 8 MHz the set-up leaves \<open>TCCR1B = 0x0B\<close> (CTC mode,
  prescaler 64) and \<open>OCR1A = 0x00F9\<close> (count to 249), both different from the values at
  16 MHz. The period is 16000 clock cycles, which at 8 MHz is again exactly 2 ms; one
  second of cycles has exactly 500 compare matches and as many calls of
  \<^verbatim>\<open>onSampleTime()\<close>.
\<close>

theorem atmega_8MHz_period_2ms:
  assumes "USE_ARDUINO_INTERRUPTS b = Some True" and "atmega_branch b" and "F_CPU b = 8000000"
    and "def_AVR b" and "\<not> def_arc b"
  shows "\<exists>s' s''. PulseSensorPlaygroundSetupInterrupt b s = Some (True, s') \<and>
           regs s' TCCR1B = 0x0B \<and> regs s' OCR1A = 0x00F9 \<and>
           regs s' TCCR1B \<noteq> 0x0C \<and> regs s' OCR1A \<noteq> 0x007C \<and>
           timer1_period (regs s') = Some 16000 \<and> 1000 * 16000 = 2 * F_CPU b \<and>
           timer1_compare_matches (regs s') (nat (F_CPU b)) = Some 500 \<and>
           timer1_simulate cb b (nat (F_CPU b)) s' = Some s'' \<and>
           callbacks (OurThis s) s'' = callbacks (OurThis s) s + 500"
proof -
  obtain s' where call: "PulseSensorPlaygroundSetupInterrupt b s = Some (True, s')"
    and rg: "regs s' = (regs s)(TCCR1A := 0x00, TCCR1C := 0x00, TCCR1B := 0x0B, OCR1A := 0x00F9, TIMSK1 := 0x02)"
    and i: "sreg_I s'" and obj: "OurThis s' = OurThis s"
    and cb0: "callbacks (OurThis s) s' = callbacks (OurThis s) s"
    using assms by (simp add: setup_defs callbacks_def Let_def)
  have ctc: "timer1_ctc (regs s')" and ocie: "timer1_ocie1a (regs s')"
    and presc: "timer1_prescaler (regs s' TCCR1B) = Some 64"
    by (simp_all add: rg timer1_ctc_def timer1_ocie1a_def timer1_prescaler_def)
  have count: "timer1_count 64 249 8000000 (0, 0) = 500"
    by (simp add: timer1_count_closed)
  have period: "timer1_period (regs s') = Some 16000"
    using ctc presc by (simp add: timer1_period_def rg)
  have matches: "timer1_compare_matches (regs s') (nat (F_CPU b)) = Some 500"
    using ctc ocie presc count assms(3) by (simp add: timer1_compare_matches_def rg)
  have sim: "timer1_simulate cb b (nat (F_CPU b)) s' = Some ((deliver cb b ^^ 500) s')"
    using matches by (simp add: timer1_simulate_def)
  have "callbacks (OurThis s') ((deliver cb b ^^ 500) s') = callbacks (OurThis s') s' + 500"
    using deliver_funpow [where cb = cb and k = 500, OF assms(1) assms(4) assms(5) i] by simp
  then have calls: "callbacks (OurThis s) ((deliver cb b ^^ 500) s') = callbacks (OurThis s) s + 500"
    using obj cb0 by simp
  show ?thesis
    using call rg period matches sim calls assms(3) by simp
qed

theorem atmega_8MHz_period_2ms_witness:
  "USE_ARDUINO_INTERRUPTS pro_mini_8MHz = Some True \<and> atmega_branch pro_mini_8MHz \<and>
   F_CPU pro_mini_8MHz = 8000000 \<and> def_AVR pro_mini_8MHz \<and> \<not> def_arc pro_mini_8MHz \<and>
   (\<exists>s' s''. PulseSensorPlaygroundSetupInterrupt pro_mini_8MHz start = Some (True, s') \<and>
      regs s' TCCR1B = 0x0B \<and> regs s' OCR1A = 0x00F9 \<and>
      timer1_compare_matches (regs s') 8000000 = Some 500 \<and>
      timer1_simulate count_sample pro_mini_8MHz 8000000 s' = Some s'' \<and>
      callbacks 7 s'' = 500)"
proof -
  have "callbacks 7 start = 0" and "OurThis start = 7"
    by (simp_all add: callbacks_def start_def)
  then show ?thesis
    using atmega_8MHz_period_2ms [of pro_mini_8MHz start count_sample]
    by (auto simp add: build_defs)
qed

section \<open>The interrupt service routine and the flag\<close>

text \<open>
  C6. In an interrupt-driven build for an AVR target (where the macros are \<^verbatim>\<open>cli()\<close> and
  \<^verbatim>\<open>sei()\<close>), a compare match of Timer1 does three things in this order and nothing
  else: \<^verbatim>\<open>cli()\<close>, the call of \<^verbatim>\<open>onSampleTime()\<close> on the object that \<open>OurThis\<close> points
  to, and \<^verbatim>\<open>sei()\<close>. The registers, \<open>UsingInterrupts\<close> and \<open>OurThis\<close> are as before.
\<close>

theorem isr_three_steps:
  assumes "USE_ARDUINO_INTERRUPTS b = Some True" and "def_AVR b" and "\<not> def_arc b"
  shows "timer1_compare_match onSampleTime b s =
           s\<lparr>sreg_I := True, engine := onSampleTime (OurThis s) (engine s),
             trace := trace s @ [Cli, OnSampleTime (OurThis s), Sei]\<rparr>"
  using assms by (simp add: isr_defs Let_def)

theorem isr_three_steps_witness:
  "USE_ARDUINO_INTERRUPTS uno_16MHz = Some True \<and> def_AVR uno_16MHz \<and> \<not> def_arc uno_16MHz \<and>
   trace (timer1_compare_match count_sample uno_16MHz start) = [Cli, OnSampleTime 7, Sei] \<and>
   engine (timer1_compare_match count_sample uno_16MHz start) = 1 \<and>
   regs (timer1_compare_match count_sample uno_16MHz start) = regs start"
  using isr_three_steps [of uno_16MHz count_sample start]
  by (simp add: build_defs start_def count_sample_def)

text \<open>
  C7. In a build that defines \<^verbatim>\<open>USE_ARDUINO_INTERRUPTS\<close> as \<open>u\<close> (true in an
  interrupt-driven build, false in a polling-only build), the static initialiser sets
  \<open>UsingInterrupts\<close> to \<open>u\<close> and changes nothing else, and after it the flag has that
  value whatever the code of the header does: any sequence of calls of the set-up and of
  compare matches.
\<close>

theorem UsingInterrupts_is_build_switch:
  assumes "USE_ARDUINO_INTERRUPTS b = Some u"
  shows "static_init b s0 = Some (s0\<lparr>UsingInterrupts := u\<rparr>) \<and>
         UsingInterrupts (run onSampleTime b as (s0\<lparr>UsingInterrupts := u\<rparr>)) = u"
  using assms by (simp add: static_init_def run_UsingInterrupts)

theorem UsingInterrupts_is_build_switch_witness:
  "USE_ARDUINO_INTERRUPTS uno_16MHz = Some True \<and>
   \<not> UsingInterrupts start_cold \<and>
   static_init uno_16MHz start_cold = Some (start_cold\<lparr>UsingInterrupts := True\<rparr>) \<and>
   UsingInterrupts (run count_sample uno_16MHz [CallSetup, CompareMatch, CompareMatch]
     (start_cold\<lparr>UsingInterrupts := True\<rparr>)) = True \<and>
   USE_ARDUINO_INTERRUPTS uno_polled = Some False \<and>
   UsingInterrupts start \<and>
   static_init uno_polled start = Some (start\<lparr>UsingInterrupts := False\<rparr>) \<and>
   UsingInterrupts (run count_sample uno_polled [CallSetup, CompareMatch, CompareMatch]
     (start\<lparr>UsingInterrupts := False\<rparr>)) = False"
proof -
  have i: "USE_ARDUINO_INTERRUPTS uno_16MHz = Some True"
    and p: "USE_ARDUINO_INTERRUPTS uno_polled = Some False"
    by (simp_all add: build_defs)
  show ?thesis
    using UsingInterrupts_is_build_switch [OF i, of start_cold count_sample "[CallSetup, CompareMatch, CompareMatch]"]
      UsingInterrupts_is_build_switch [OF p, of start count_sample "[CallSetup, CompareMatch, CompareMatch]"]
      i p
    by (simp add: start_cold_def start_def)
qed

text \<open>
  C8, as the claim states it: an interrupt-driven build has exactly one interrupt service
  routine. The build for the Arduino 101 is interrupt-driven and \<^verbatim>\<open>__AVR__\<close> is not
  defined there: the \<^verbatim>\<open>#if defined(__AVR__)\<close> around the \<^verbatim>\<open>ISR(...)\<close> leaves it with none.
\<close>

theorem isr_missing_on_non_avr_counterexample:
  "USE_ARDUINO_INTERRUPTS arduino_101 = Some True \<and>
   isr_vectors arduino_101 = [] \<and>
   length (isr_vectors arduino_101) \<noteq> 1"
  by (simp add: arduino_101_def isr_vectors_def isr_table_def)

text \<open>
  C8, amended. A translation unit defines the interrupt service routine for
  \<^verbatim>\<open>TIMER1_COMPA_vect\<close>, and only that one, exactly when \<^verbatim>\<open>USE_ARDUINO_INTERRUPTS\<close> is
  true and \<^verbatim>\<open>__AVR__\<close> is defined; every other build defines none. So in a polling-only
  build (and in an interrupt-driven build for a target that is not an AVR) a compare
  match runs no code of the header, and that is decided by the build alone, not by a
  test at run time; in an interrupt-driven AVR build it runs the routine.
\<close>

theorem isr_exactly_in_interrupt_avr_builds:
  "isr_vectors b =
     (if USE_ARDUINO_INTERRUPTS b = Some True \<and> def_AVR b then [TIMER1_COMPA_vect] else []) \<and>
   timer1_compare_match onSampleTime b s =
     (if USE_ARDUINO_INTERRUPTS b = Some True \<and> def_AVR b
      then ISR_TIMER1_COMPA onSampleTime b s else s)"
  by (auto simp add: isr_vectors_def isr_table_def timer1_compare_match_def split: option.splits)

theorem isr_exactly_in_interrupt_avr_builds_witness:
  "isr_vectors uno_polled = [] \<and>
   timer1_compare_match count_sample uno_polled start = start \<and>
   isr_vectors uno_16MHz = [TIMER1_COMPA_vect] \<and>
   trace (timer1_compare_match count_sample uno_16MHz start) = [Cli, OnSampleTime 7, Sei] \<and>
   isr_vectors arduino_101 = [] \<and>
   timer1_compare_match count_sample arduino_101 start = start"
  using isr_exactly_in_interrupt_avr_builds [of uno_polled count_sample start]
    isr_exactly_in_interrupt_avr_builds [of uno_16MHz count_sample start]
    isr_exactly_in_interrupt_avr_builds [of arduino_101 count_sample start]
  by (simp add: build_defs arduino_101_def start_def isr_defs Let_def)

end
